theory Spec2Isabelle
  imports Main "HOL-Library.AList"
begin

section \<open>Shell scripts: text, commands and traces\<close>

text \<open>
  The two shell scripts (\<^verbatim>\<open>debug-openwebui.sh\<close> and \<^verbatim>\<open>run-bedrock.sh\<close>) are straight-line
  programs over external commands. A script is modelled as a function from the results of
  the external commands it consults (exit statuses and captured standard output, one
  field per call site) to the trace of what it does, in order, and its exit status.

  A simple command is the list of its words. A pipeline is a list of simple commands.
  Redirections (\<^verbatim>\<open>2>/dev/null\<close>, \<^verbatim>\<open>&>/dev/null\<close>, \<^verbatim>\<open>> /dev/null 2>&1\<close>) only discard output
  and are left out of the words.
\<close>

type_synonym command = "string list"

datatype action =
    Echo string
  | Echo_n string
  | Run "command list"

record outcome =
  trace :: "action list"
  status :: nat

text \<open>The commands a trace has executed, pipelines flattened, in order.\<close>

fun commands_of :: "action list \<Rightarrow> command list" where
  "commands_of [] = []"
| "commands_of (Run p # as) = p @ commands_of as"
| "commands_of (Echo s # as) = commands_of as"
| "commands_of (Echo_n s # as) = commands_of as"

subsection \<open>\<^verbatim>\<open>grep -q\<close> with a literal pattern\<close>

text \<open>
  Every pattern the scripts give to \<^verbatim>\<open>grep -q\<close> (\<^verbatim>\<open>open-webui\<close>, \<^verbatim>\<open>bedrock-gateway\<close>,
  \<^verbatim>\<open>500\<close>) is free of regular-expression operators, so a line matches exactly when the
  pattern occurs in it as a contiguous substring. \<^verbatim>\<open>grep -q\<close> succeeds when some line of
  its input matches.
\<close>

fun starts_with :: "string \<Rightarrow> string \<Rightarrow> bool" where
  "starts_with [] s = True"
| "starts_with (p # ps) [] = False"
| "starts_with (p # ps) (c # cs) = (p = c \<and> starts_with ps cs)"

fun occurs_in :: "string \<Rightarrow> string \<Rightarrow> bool" where
  "occurs_in pat [] = (pat = [])"
| "occurs_in pat (c # cs) = (starts_with pat (c # cs) \<or> occurs_in pat cs)"

fun lines_of :: "string \<Rightarrow> string list" where
  "lines_of [] = []"
| "lines_of (c # cs) =
     (if c = CHR 0x0A then [] # lines_of cs
      else (case lines_of cs of [] \<Rightarrow> [[c]] | l # ls \<Rightarrow> (c # l) # ls))"

definition grep_q :: "string \<Rightarrow> string \<Rightarrow> bool" where
  "grep_q pat input = list_ex (occurs_in pat) (lines_of input)"

subsection \<open>The table printed by \<^verbatim>\<open>docker images\<close>\<close>



subsection \<open>Which commands change the system\<close>

text \<open>
  A command is counted as changing the system (containers, images, volumes, configuration
  or data) unless it is one of the inspecting forms below: the shell builtins and text
  filters, \<^verbatim>\<open>sleep\<close>, a \<^verbatim>\<open>curl\<close> request without an upload or method option, the
  \<^verbatim>\<open>docker\<close> subcommands \<^verbatim>\<open>ps\<close>, \<^verbatim>\<open>info\<close>, \<^verbatim>\<open>images\<close> and \<^verbatim>\<open>logs\<close>, and \<^verbatim>\<open>docker exec\<close> of
  \<^verbatim>\<open>env\<close>, \<^verbatim>\<open>ls\<close> or \<^verbatim>\<open>ping\<close>. Everything else, \<^verbatim>\<open>docker-compose\<close> and \<^verbatim>\<open>docker run\<close>
  included, counts as changing it.
\<close>

definition curl_uploads :: "string list \<Rightarrow> bool" where
  "curl_uploads args =
     list_ex (\<lambda>a. a \<in> set [''-X'', ''--request'', ''-d'', ''--data'', ''-T'',
                              ''--upload-file'', ''-F'', ''--form'']) args"

fun modifies_system :: "command \<Rightarrow> bool" where
  "modifies_system [] = False"
| "modifies_system (prog # args) =
     (if prog \<in> set [''['', ''true'', ''grep'', ''sort'', ''tail'', ''sleep''] then False
      else if prog = ''curl'' then curl_uploads args
      else if prog = ''docker'' then
        (case args of
           [] \<Rightarrow> False
         | sub # rest \<Rightarrow>
             (if sub \<in> set [''ps'', ''info'', ''images'', ''logs''] then False
              else if sub = ''exec'' then
                (case rest of
                   container # inner # _ \<Rightarrow> inner \<notin> set [''env'', ''ls'', ''ping'']
                 | _ \<Rightarrow> True)
              else True))
      else True)"

subsection \<open>Characters outside ASCII\<close>

text \<open>The scripts print UTF-8 symbols; a string holds their bytes.\<close>

definition backslash :: string where
  "backslash = [CHR 0x5C]"

definition magnifier :: string where
  "magnifier = [CHR 0xF0, CHR 0x9F, CHR 0x94, CHR 0x8D]"

definition check_mark :: string where
  "check_mark = [CHR 0xE2, CHR 0x9C, CHR 0x85]"

definition cross_mark :: string where
  "cross_mark = [CHR 0xE2, CHR 0x9D, CHR 0x8C]"

definition package_sign :: string where
  "package_sign = [CHR 0xF0, CHR 0x9F, CHR 0x93, CHR 0xA6]"

definition wrench :: string where
  "wrench = [CHR 0xF0, CHR 0x9F, CHR 0x94, CHR 0xA7]"

definition clipboard :: string where
  "clipboard = [CHR 0xF0, CHR 0x9F, CHR 0x93, CHR 0x8B]"

definition floppy :: string where
  "floppy = [CHR 0xF0, CHR 0x9F, CHR 0x92, CHR 0xBE]"

definition globe :: string where
  "globe = [CHR 0xF0, CHR 0x9F, CHR 0x8C, CHR 0x90]"

definition rocket :: string where
  "rocket = [CHR 0xF0, CHR 0x9F, CHR 0x9A, CHR 0x80]"

definition bulb :: string where
  "bulb = [CHR 0xF0, CHR 0x9F, CHR 0x92, CHR 0xA1]"

section \<open>\<^verbatim>\<open>debug-openwebui.sh\<close>\<close>

text \<open>
  What the script reads back from the commands it runs: the output of the first
  \<^verbatim>\<open>docker ps\<close>, the exit statuses of the \<^verbatim>\<open>ls\<close> and \<^verbatim>\<open>ping\<close> run inside the container,
  and what \<^verbatim>\<open>curl\<close> writes for \<^verbatim>\<open>%{http_code}\<close>.
\<close>

record debug_env =
  ps_out :: string
  ls_status :: nat
  ping_status :: nat
  curl_out :: string

definition port_check :: "string \<Rightarrow> action list" where
  "port_check http_code =
     [Echo_n ''Port 3000 is accessible: '',
      Run [[''curl'', ''-s'', ''-o'', ''/dev/null'', ''-w'', ''%{http_code}'',
            ''http://localhost:3000''],
           [''grep'', ''-q'', ''500'']],
      (if grep_q ''500'' http_code then Echo (cross_mark @ '' Returns 500'')
       else Echo (check_mark @ '' OK''))]"

definition container_report :: "debug_env \<Rightarrow> action list" where
  "container_report e =
     [Echo (check_mark @ '' Container is running''),
      Echo '''',
      Echo (package_sign @ '' Container Details:''),
      Run [[''docker'', ''ps'', ''--filter'', ''name=open-webui'', ''--format'',
            ''table {{.Names}}'' @ backslash @ ''t{{.Status}}'' @ backslash @ ''t{{.Ports}}'']],
      Echo '''',
      Echo (wrench @ '' Environment Variables:''),
      Run [[''docker'', ''exec'', ''open-webui'', ''env''],
           [''grep'', ''-E'', ''(OLLAMA|OPENAI|WEBUI|DATABASE)''],
           [''sort'']],
      Echo '''',
      Echo (clipboard @ '' Recent Error Logs:''),
      Run [[''docker'', ''logs'', ''open-webui''],
           [''grep'', ''-i'', ''-E'', ''(error|exception|failed|500)''],
           [''tail'', ''-20'']],
      Echo '''',
      Echo (floppy @ '' Database Status:''),
      Run [[''docker'', ''exec'', ''open-webui'', ''ls'', ''-la'', ''/app/backend/data/'']]]
     @ (if ls_status e = 0 then [] else [Echo ''Cannot access data directory''])
     @ [Echo '''',
        Echo (globe @ '' Network Tests:''),
        Echo_n ''Container can reach host: '',
        Run [[''docker'', ''exec'', ''open-webui'', ''ping'', ''-c'', ''1'',
              ''host.docker.internal'']],
        (if ping_status e = 0 then Echo (check_mark @ '' Yes'')
         else Echo (cross_mark @ '' No''))]
     @ port_check (curl_out e)"

definition start_hint :: "action list" where
  "start_hint =
     [Echo (cross_mark @ '' Container is not running!''),
      Echo '''',
      Echo (rocket @ '' To start the container, run:''),
      Echo (''docker run -d -p 3000:8080 '' @ backslash),
      Echo (''  -e ENABLE_OLLAMA_API=false '' @ backslash),
      Echo (''  -e ENABLE_OPENAI_API=true '' @ backslash),
      Echo (''  -e OPENAI_API_BASE_URL=http://host.docker.internal:8000/api/v1 '' @ backslash),
      Echo (''  -e OPENAI_API_KEY=bedrock '' @ backslash),
      Echo (''  -v open-webui:/app/backend/data '' @ backslash),
      Echo (''  --name open-webui '' @ backslash),
      Echo (''  --restart always '' @ backslash),
      Echo ''  open-webui'']"

definition debug_openwebui :: "debug_env \<Rightarrow> outcome" where
  "debug_openwebui e =
     \<lparr>trace =
        [Echo (magnifier @ '' Open WebUI Debug Script''),
         Echo ''========================='',
         Echo '''',
         Run [[''docker'', ''ps''], [''grep'', ''-q'', ''open-webui'']]]
        @ (if grep_q ''open-webui'' (ps_out e) then container_report e else start_hint)
        @ [Echo '''',
           Echo (bulb @ '' Common fixes for 500 error:''),
           Echo ''1. Clear browser cache and cookies'',
           Echo ''2. Try incognito mode'',
           Echo ''3. Access http://localhost:3000/ollama first'',
           Echo ''4. Remove and recreate the volume'',
           Echo ''5. Check if Bedrock Gateway is running on port 8000''],
      status = 0\<rparr>"

section \<open>\<^verbatim>\<open>run-bedrock.sh\<close>\<close>

text \<open>
  What the script reads back: whether \<^verbatim>\<open>.env.bedrock\<close> is a regular file, the exit status
  of \<^verbatim>\<open>docker info\<close>, the output of each of the two \<^verbatim>\<open>docker images\<close> calls, the exit
  status of the \<^verbatim>\<open>docker-compose ... down\<close>, and the output of each of the two
  \<^verbatim>\<open>docker ps\<close> calls of the final check. The script has no \<^verbatim>\<open>set -e\<close>: the status of
  \<^verbatim>\<open>docker-compose ... up -d\<close> is not looked at.
\<close>

record bedrock_env =
  env_file_present :: bool
  docker_info_status :: nat
  images_out_gateway :: string
  images_out_webui :: string
  compose_down_status :: nat
  ps_out_gateway :: string
  ps_out_webui :: string

definition banner :: "action list" where
  "banner = [Echo ''Starting Open WebUI with AWS Bedrock Integration'', Echo '''']"

definition test_env_file :: action where
  "test_env_file = Run [[''['', ''!'', ''-f'', ''.env.bedrock'', '']'']]"

definition env_file_message :: "action list" where
  "env_file_message =
     [Echo ''Error: .env.bedrock file not found!'',
      Echo '''',
      Echo ''Please create a .env.bedrock file with your AWS credentials:'',
      Echo '''',
      Echo ''AWS_ACCESS_KEY_ID=your_aws_access_key_here'',
      Echo ''AWS_SECRET_ACCESS_KEY=your_aws_secret_key_here'',
      Echo ''AWS_REGION=us-east-1'',
      Echo ''WEBUI_SECRET_KEY=your_random_secret_key_here'',
      Echo '''']"

definition docker_info :: action where
  "docker_info = Run [[''docker'', ''info'']]"

definition docker_message :: "action list" where
  "docker_message =
     [Echo ''Error: Docker is not running!'',
      Echo ''Please start Docker and try again.'']"

definition images_grep :: "string \<Rightarrow> action" where
  "images_grep name = Run [[''docker'', ''images''], [''grep'', ''-q'', name]]"

definition gateway_message :: "action list" where
  "gateway_message =
     [Echo ''Error: bedrock-gateway image not found!'',
      Echo '''',
      Echo ''Please build it first:'',
      Echo ''1. Clone: git clone https://github.com/aws-samples/bedrock-access-gateway.git'',
      Echo ''2. Build: cd bedrock-access-gateway/src && docker build . -f Dockerfile_ecs -t bedrock-gateway'',
      Echo '''']"

definition webui_message :: "action list" where
  "webui_message =
     [Echo ''Error: open-webui image not found!'',
      Echo '''',
      Echo ''Please build it first:'',
      Echo ''docker build -t open-webui .'',
      Echo '''']"

definition compose_down :: command where
  "compose_down = [''docker-compose'', ''-f'', ''docker-compose.bedrock.yaml'', ''down'']"

definition compose_up :: command where
  "compose_up = [''docker-compose'', ''--env-file'', ''.env.bedrock'', ''-f'',
                 ''docker-compose.bedrock.yaml'', ''up'', ''-d'']"

definition ps_grep :: "string \<Rightarrow> action" where
  "ps_grep name = Run [[''docker'', ''ps''], [''grep'', ''-q'', name]]"

definition start_services :: "bedrock_env \<Rightarrow> action list" where
  "start_services e =
     [Echo ''Stopping any existing containers...'',
      Run [compose_down]]
     @ (if compose_down_status e = 0 then [] else [Run [[''true'']]])
     @ [Echo ''Starting services...'',
        Run [compose_up],
        Echo '''',
        Echo ''Waiting for services to start...'',
        Run [[''sleep'', ''5'']]]"

definition success_message :: "action list" where
  "success_message =
     [Echo '''',
      Echo ''Services started successfully!'',
      Echo '''',
      Echo ''Open WebUI: http://localhost:3000'',
      Echo ''Bedrock Gateway API: http://localhost:8000/docs'',
      Echo '''',
      Echo ''First time setup:'',
      Echo ''1. Create an account at http://localhost:3000'',
      Echo ''2. AWS Bedrock models should appear automatically'',
      Echo '''',
      Echo ''To stop: docker-compose -f docker-compose.bedrock.yaml down'',
      Echo ''View logs: docker-compose -f docker-compose.bedrock.yaml logs -f'']"

definition failure_message :: "action list" where
  "failure_message =
     [Echo '''',
      Echo ''Error: Services failed to start!'',
      Echo ''Check logs with: docker-compose -f docker-compose.bedrock.yaml logs'']"

definition final_check :: "bedrock_env \<Rightarrow> outcome" where
  "final_check e =
     (if grep_q ''bedrock-gateway'' (ps_out_gateway e) then
        (if grep_q ''open-webui'' (ps_out_webui e) then
           \<lparr>trace = [ps_grep ''bedrock-gateway'', ps_grep ''open-webui''] @ success_message,
            status = 0\<rparr>
         else
           \<lparr>trace = [ps_grep ''bedrock-gateway'', ps_grep ''open-webui''] @ failure_message,
            status = 1\<rparr>)
      else \<lparr>trace = [ps_grep ''bedrock-gateway''] @ failure_message, status = 1\<rparr>)"

definition run_bedrock :: "bedrock_env \<Rightarrow> outcome" where
  "run_bedrock e =
     (if \<not> env_file_present e then
        \<lparr>trace = banner @ [test_env_file] @ env_file_message, status = 1\<rparr>
      else if docker_info_status e \<noteq> 0 then
        \<lparr>trace = banner @ [test_env_file, docker_info] @ docker_message, status = 1\<rparr>
      else if \<not> grep_q ''bedrock-gateway'' (images_out_gateway e) then
        \<lparr>trace = banner @ [test_env_file, docker_info, images_grep ''bedrock-gateway'']
                 @ gateway_message,
         status = 1\<rparr>
      else if \<not> grep_q ''open-webui'' (images_out_webui e) then
        \<lparr>trace = banner @ [test_env_file, docker_info, images_grep ''bedrock-gateway'',
                           images_grep ''open-webui'']
                 @ webui_message,
         status = 1\<rparr>
      else
        \<lparr>trace = banner @ [test_env_file, docker_info, images_grep ''bedrock-gateway'',
                           images_grep ''open-webui'']
                 @ start_services e @ trace (final_check e),
         status = status (final_check e)\<rparr>)"

section \<open>The settings panel \<^verbatim>\<open>General.svelte\<close>\<close>

subsection \<open>JavaScript values\<close>

text \<open>
  The component's props and the \<^verbatim>\<open>config\<close> store carry no type annotation, so they are
  modelled as general JavaScript values. Numbers are restricted to the integers and
  \<^verbatim>\<open>NaN\<close>; an object is the list of its own properties.
\<close>

datatype jsval =
    JUndefined
  | JNull
  | JBool bool
  | JNum int
  | JNaN
  | JStr string
  | JObj "(string \<times> jsval) list"

datatype js_error = TypeError

fun truthy :: "jsval \<Rightarrow> bool" where
  "truthy JUndefined = False"
| "truthy JNull = False"
| "truthy (JBool b) = b"
| "truthy (JNum n) = (n \<noteq> 0)"
| "truthy JNaN = False"
| "truthy (JStr s) = (s \<noteq> [])"
| "truthy (JObj kvs) = True"

fun nullish :: "jsval \<Rightarrow> bool" where
  "nullish JUndefined = True"
| "nullish JNull = True"
| "nullish v = False"

text \<open>
  \<^verbatim>\<open>v.k\<close>: reading a property of \<^verbatim>\<open>null\<close> or \<^verbatim>\<open>undefined\<close> throws; an object yields the
  property or \<^verbatim>\<open>undefined\<close>; a boolean, number or string has none of the properties
  named in this component.
\<close>

fun member :: "jsval \<Rightarrow> string \<Rightarrow> js_error + jsval" where
  "member JUndefined k = Inl TypeError"
| "member JNull k = Inl TypeError"
| "member (JObj kvs) k = Inr (case map_of kvs k of None \<Rightarrow> JUndefined | Some v \<Rightarrow> v)"
| "member v k = Inr JUndefined"

text \<open>\<^verbatim>\<open>v?.k\<close> and \<^verbatim>\<open>a ?? b\<close>.\<close>

definition optional_member :: "jsval \<Rightarrow> string \<Rightarrow> js_error + jsval" where
  "optional_member v k = (if nullish v then Inr JUndefined else member v k)"

definition coalesce :: "jsval \<Rightarrow> jsval \<Rightarrow> jsval" where
  "coalesce a b = (if nullish a then b else a)"

text \<open>
  \<^verbatim>\<open>v.k = x\<close> in a module (strict mode): only an object takes the property; on anything
  else the assignment throws.
\<close>

fun assign :: "jsval \<Rightarrow> string \<Rightarrow> jsval \<Rightarrow> js_error + jsval" where
  "assign (JObj kvs) k x = Inr (JObj (AList.update k x kvs))"
| "assign v k x = Inl TypeError"

subsection \<open>State of the mounted component\<close>

text \<open>
  The two props \<^verbatim>\<open>updateHandler\<close> and \<^verbatim>\<open>RAGConfig\<close>, the value of the \<^verbatim>\<open>config\<close> store, the
  translation function \<^verbatim>\<open>$i18n.t\<close>, the part of the application outside the component on
  which the callback acts, and the log of what the component has done so far.
  \<^verbatim>\<open>Toast_error\<close>, \<^verbatim>\<open>Toast_success\<close>, \<^verbatim>\<open>Api_call\<close> and \<^verbatim>\<open>Download\<close> are what the export code
  inside the comment of the click handler would do.
\<close>

datatype effect =
    Toast_info string
  | Toast_error string
  | Toast_success string
  | Api_call string
  | Download string
  | Assign string jsval
  | Call_updateHandler

record 'w panel =
  RAGConfig :: jsval
  updateHandler :: "'w \<Rightarrow> 'w"
  config :: jsval
  translate :: "string \<Rightarrow> string"
  world :: 'w
  effects :: "effect list"

subsection \<open>Markup\<close>

text \<open>
  The rendered form, flattened to the nodes that show text or take input. A checkbox, a
  select and a number input carry the \<^verbatim>\<open>RAGConfig\<close> property they are bound to and their
  label; a select also carries its options, each a value and a caption.
\<close>

datatype node =
    Text_node string
  | Rule
  | Button string
  | Checkbox string string
  | Select string string "(string \<times> string) list"
  | Number_input string string string

definition export_section :: "(string \<Rightarrow> string) \<Rightarrow> node list" where
  "export_section t = [Text_node (t ''Export Documents Workspace''), Button (t ''Export All'')]"

definition mode_options :: "(string \<Rightarrow> string) \<Rightarrow> (string \<times> string) list" where
  "mode_options t =
     [(''full_context'', t ''Full Context''),
      (''chunked_vectorized'', t ''Chunked & Vectorized''),
      (''hybrid'', t ''Hybrid'')]"

definition advanced_options :: "(string \<Rightarrow> string) \<Rightarrow> node list" where
  "advanced_options t =
     [Checkbox ''ENABLE_QUERY_EXPANSION'' (t ''Enable Query Expansion''),
      Checkbox ''ENABLE_DOCUMENT_RERANKING'' (t ''Enable Document Reranking''),
      Checkbox ''ENABLE_SEMANTIC_CHUNKING'' (t ''Enable Semantic Chunking''),
      Select ''CHAT_UPLOAD_PROCESSING_MODE'' (t ''Chat Upload Processing Mode'') (mode_options t),
      Select ''KNOWLEDGE_BASE_PROCESSING_MODE'' (t ''Knowledge Base Processing Mode'')
        (mode_options t)]"

definition file_limits :: "(string \<Rightarrow> string) \<Rightarrow> node list" where
  "file_limits t =
     [Text_node (t ''File Upload Limit''),
      Number_input ''FILE_MAX_SIZE'' (t ''Max File Size (MB)'') (t ''No limit''),
      Number_input ''FILE_MAX_COUNT'' (t ''Max File Count'') (t ''No limit'')]"

text \<open>\<^verbatim>\<open>$config?.features?.enable_admin_export\<close> and the guard built on it.\<close>

definition enable_admin_export :: "jsval \<Rightarrow> js_error + jsval" where
  "enable_admin_export cfg =
     (case optional_member cfg ''features'' of
        Inl err \<Rightarrow> Inl err
      | Inr features \<Rightarrow> optional_member features ''enable_admin_export'')"

definition export_guard :: "jsval \<Rightarrow> js_error + bool" where
  "export_guard cfg =
     (case enable_admin_export cfg of
        Inl err \<Rightarrow> Inl err
      | Inr flag \<Rightarrow> Inr (truthy (coalesce flag (JBool True))))"

definition config_section :: "(string \<Rightarrow> string) \<Rightarrow> jsval \<Rightarrow> js_error + node list" where
  "config_section t rag =
     (if truthy rag then
        (case member rag ''USE_ADVANCED_RETRIEVAL'' of
           Inl err \<Rightarrow> Inl err
         | Inr flag \<Rightarrow>
             Inr ([Rule,
                   Text_node (t ''Advanced Retrieval Settings''),
                   Checkbox ''USE_ADVANCED_RETRIEVAL'' (t ''Enable Advanced Retrieval'')]
                  @ (if truthy flag then advanced_options t else [])
                  @ [Rule]
                  @ file_limits t))
      else Inr [])"

definition render :: "'w panel \<Rightarrow> js_error + node list" where
  "render p =
     (case export_guard (config p) of
        Inl err \<Rightarrow> Inl err
      | Inr shown \<Rightarrow>
          (case config_section (translate p) (RAGConfig p) of
             Inl err \<Rightarrow> Inl err
           | Inr section \<Rightarrow>
               Inr ([Text_node (translate p ''General Settings'')]
                    @ (if shown then export_section (translate p) else [])
                    @ section)))"

definition rendered :: "'w panel \<Rightarrow> node \<Rightarrow> bool" where
  "rendered p n = (case render p of Inl err \<Rightarrow> False | Inr ns \<Rightarrow> n \<in> set ns)"

subsection \<open>Event listeners\<close>

text \<open>
  The DOM events the markup listens to. \<^verbatim>\<open>bind:checked\<close> and \<^verbatim>\<open>bind:value\<close> on a select write
  the bound property on the element's \<^verbatim>\<open>change\<close> event, \<^verbatim>\<open>bind:value\<close> on a number input
  on its \<^verbatim>\<open>input\<close> event (an emptied field gives \<^verbatim>\<open>null\<close>); each \<^verbatim>\<open>on:change\<close> calls
  \<^verbatim>\<open>updateHandler()\<close>. On every control the binding is written before \<^verbatim>\<open>on:change\<close>, so
  its listener runs first. A listener that throws is abandoned and the next one still
  runs. An event aimed at a control that is not in the rendered form reaches no listener;
  a select in the form always has one of its options selected when the user changes it,
  so a \<^verbatim>\<open>change\<close> of a select names the option by its position.
\<close>

datatype event =
    Click_export
  | Change_checkbox string bool
  | Change_select string nat
  | Input_number string "int option"
  | Change_number string

definition on_click_export :: "'w panel \<Rightarrow> 'w panel" where
  "on_click_export p =
     p\<lparr>effects := effects p
          @ [Toast_info (translate p ''Export functionality not yet implemented'')]\<rparr>"

definition bind_write :: "string \<Rightarrow> jsval \<Rightarrow> 'w panel \<Rightarrow> 'w panel" where
  "bind_write k v p =
     (case assign (RAGConfig p) k v of
        Inl err \<Rightarrow> p
      | Inr obj \<Rightarrow> p\<lparr>RAGConfig := obj, effects := effects p @ [Assign k v]\<rparr>)"

definition on_change :: "'w panel \<Rightarrow> 'w panel" where
  "on_change p =
     p\<lparr>world := updateHandler p (world p), effects := effects p @ [Call_updateHandler]\<rparr>"

definition to_number :: "int option \<Rightarrow> jsval" where
  "to_number x = (case x of None \<Rightarrow> JNull | Some n \<Rightarrow> JNum n)"

fun has_button :: "node list \<Rightarrow> bool" where
  "has_button [] = False"
| "has_button (Button c # ns) = True"
| "has_button (n # ns) = has_button ns"

fun has_checkbox :: "string \<Rightarrow> node list \<Rightarrow> bool" where
  "has_checkbox k [] = False"
| "has_checkbox k (Checkbox k' c # ns) = (k = k' \<or> has_checkbox k ns)"
| "has_checkbox k (n # ns) = has_checkbox k ns"

fun has_number_input :: "string \<Rightarrow> node list \<Rightarrow> bool" where
  "has_number_input k [] = False"
| "has_number_input k (Number_input k' l h # ns) = (k = k' \<or> has_number_input k ns)"
| "has_number_input k (n # ns) = has_number_input k ns"

fun options_of :: "string \<Rightarrow> node list \<Rightarrow> (string \<times> string) list option" where
  "options_of k [] = None"
| "options_of k (Select k' l opts # ns) = (if k = k' then Some opts else options_of k ns)"
| "options_of k (n # ns) = options_of k ns"

definition listeners :: "'w panel \<Rightarrow> event \<Rightarrow> 'w panel" where
  "listeners p ev =
     (case render p of
        Inl err \<Rightarrow> p
      | Inr ns \<Rightarrow>
          (case ev of
             Click_export \<Rightarrow> if has_button ns then on_click_export p else p
           | Change_checkbox k b \<Rightarrow>
               if has_checkbox k ns then on_change (bind_write k (JBool b) p) else p
           | Change_select k i \<Rightarrow>
               (case options_of k ns of
                  None \<Rightarrow> p
                | Some opts \<Rightarrow>
                    if i < length opts
                    then on_change (bind_write k (JStr (fst (opts ! i))) p)
                    else p)
           | Input_number k x \<Rightarrow>
               if has_number_input k ns then bind_write k (to_number x) p else p
           | Change_number k \<Rightarrow> if has_number_input k ns then on_change p else p))"

subsection \<open>Selects that come into the form\<close>

text \<open>
  A select with \<^verbatim>\<open>bind:value\<close> that is created while its bound property is \<^verbatim>\<open>undefined\<close>
  runs its binding once, right after the form has been updated: the browser has selected
  the first option, and the binding assigns that option's value to the property (\<^verbatim>\<open>null\<close>
  for a select without options). No \<^verbatim>\<open>change\<close> event is fired for this, so \<^verbatim>\<open>on:change\<close> does
  not run. The test for \<^verbatim>\<open>undefined\<close> is made for every new select before any of them
  writes. This happens when the component is mounted and whenever an event has made a
  select appear that was not in the form before.
\<close>

fun selects_of :: "node list \<Rightarrow> (string \<times> (string \<times> string) list) list" where
  "selects_of [] = []"
| "selects_of (Select k l opts # ns) = (k, opts) # selects_of ns"
| "selects_of (n # ns) = selects_of ns"

definition first_option_value :: "(string \<times> string) list \<Rightarrow> jsval" where
  "first_option_value opts = (case opts of [] \<Rightarrow> JNull | (v, c) # rest \<Rightarrow> JStr v)"

definition init_selects ::
  "(string \<times> (string \<times> string) list) list \<Rightarrow> 'w panel \<Rightarrow> 'w panel" where
  "init_selects sels p =
     foldl (\<lambda>q (k, opts). bind_write k (first_option_value opts) q) p
       (filter (\<lambda>(k, opts). member (RAGConfig p) k = Inr JUndefined) sels)"

definition created_selects ::
  "'w panel \<Rightarrow> 'w panel \<Rightarrow> (string \<times> (string \<times> string) list) list" where
  "created_selects p q =
     (case render q of
        Inl err \<Rightarrow> []
      | Inr after \<Rightarrow>
          (case render p of
             Inl err \<Rightarrow> selects_of after
           | Inr before \<Rightarrow>
               filter (\<lambda>(k, opts). k \<notin> set (map fst (selects_of before)))
                 (selects_of after)))"

definition flush :: "'w panel \<Rightarrow> 'w panel \<Rightarrow> 'w panel" where
  "flush p q = init_selects (created_selects p q) q"

text \<open>One event: its listeners run, then the form is updated.\<close>

definition dispatch :: "'w panel \<Rightarrow> event \<Rightarrow> 'w panel" where
  "dispatch p ev = flush p (listeners p ev)"

subsection \<open>Mounting\<close>

text \<open>
  \<^verbatim>\<open>export let updateHandler = () => {};\<close> and \<^verbatim>\<open>export let RAGConfig = null;\<close>: a prop the
  parent does not pass (\<open>None\<close>), or passes as \<^verbatim>\<open>undefined\<close>, takes its default. The form
  is then created, and the selects in it are new.
\<close>

definition props ::
  "(string \<Rightarrow> string) \<Rightarrow> jsval \<Rightarrow> 'w \<Rightarrow> ('w \<Rightarrow> 'w) option \<Rightarrow> jsval option \<Rightarrow> 'w panel" where
  "props t cfg w handler_prop config_prop =
     \<lparr>RAGConfig = (case config_prop of
                     None \<Rightarrow> JNull
                   | Some v \<Rightarrow> (if v = JUndefined then JNull else v)),
      updateHandler = (case handler_prop of None \<Rightarrow> (\<lambda>x. x) | Some h \<Rightarrow> h),
      config = cfg,
      translate = t,
      world = w,
      effects = []\<rparr>"

definition mount ::
  "(string \<Rightarrow> string) \<Rightarrow> jsval \<Rightarrow> 'w \<Rightarrow> ('w \<Rightarrow> 'w) option \<Rightarrow> jsval option \<Rightarrow> 'w panel" where
  "mount t cfg w handler_prop config_prop =
     (case render (props t cfg w handler_prop config_prop) of
        Inl err \<Rightarrow> props t cfg w handler_prop config_prop
      | Inr ns \<Rightarrow> init_selects (selects_of ns) (props t cfg w handler_prop config_prop))"

subsection \<open>What the user does\<close>

text \<open>
  A press of the export button is one click. Ticking a checkbox or choosing an option
  fires one \<^verbatim>\<open>change\<close>. Editing a number field fires an \<^verbatim>\<open>input\<close> for each value the field
  goes through. The browser fires \<^verbatim>\<open>change\<close> for the edit only when the user commits it
  with a value different from the one the field had when it got the focus; the flag of
  \<^verbatim>\<open>Edit\<close> says whether it does.
\<close>

datatype interaction =
    Press_export
  | Toggle string bool
  | Choose string nat
  | Edit string "int option list" bool

fun events_of :: "interaction \<Rightarrow> event list" where
  "events_of Press_export = [Click_export]"
| "events_of (Toggle k b) = [Change_checkbox k b]"
| "events_of (Choose k i) = [Change_select k i]"
| "events_of (Edit k xs change_fired) =
     map (Input_number k) xs @ (if change_fired then [Change_number k] else [])"

definition perform :: "'w panel \<Rightarrow> interaction \<Rightarrow> 'w panel" where
  "perform p i = foldl dispatch p (events_of i)"

text \<open>What has been added to the log between two states.\<close>

definition emitted :: "'w panel \<Rightarrow> 'w panel \<Rightarrow> effect list" where
  "emitted p p' = drop (length (effects p)) (effects p')"

fun writes_followed :: "effect list \<Rightarrow> bool" where
  "writes_followed [] = True"
| "writes_followed (Assign k v # es) = (Call_updateHandler \<in> set es \<and> writes_followed es)"
| "writes_followed (e # es) = writes_followed es"

fun exports :: "effect \<Rightarrow> bool" where
  "exports (Api_call f) = True"
| "exports (Download f) = True"
| "exports (Toast_error m) = True"
| "exports (Toast_success m) = True"
| "exports e = False"

definition modes :: "string list" where
  "modes = [''full_context'', ''chunked_vectorized'', ''hybrid'']"


subsection \<open>Derived notions used in the statements\<close>

text \<open>
  The two guards of the markup as plain booleans (a guard that threw would show nothing),
  the properties bound to each kind of control, the assignments the two selects make when
  they come into the form with undefined properties, and the form written out as one list.
\<close>

definition export_on :: "jsval \<Rightarrow> bool" where
  "export_on cfg = (case export_guard cfg of Inl err \<Rightarrow> False | Inr shown \<Rightarrow> shown)"

definition advanced_on :: "jsval \<Rightarrow> bool" where
  "advanced_on rag =
     (case member rag ''USE_ADVANCED_RETRIEVAL'' of
        Inl err \<Rightarrow> False
      | Inr flag \<Rightarrow> truthy flag)"

fun is_object :: "jsval \<Rightarrow> bool" where
  "is_object (JObj kvs) = True"
| "is_object v = False"

definition checkbox_keys :: "string list" where
  "checkbox_keys =
     [''ENABLE_QUERY_EXPANSION'', ''ENABLE_DOCUMENT_RERANKING'', ''ENABLE_SEMANTIC_CHUNKING'']"

definition mode_keys :: "string list" where
  "mode_keys = [''CHAT_UPLOAD_PROCESSING_MODE'', ''KNOWLEDGE_BASE_PROCESSING_MODE'']"

definition limit_keys :: "string list" where
  "limit_keys = [''FILE_MAX_SIZE'', ''FILE_MAX_COUNT'']"

definition select_defaults :: "jsval \<Rightarrow> effect list" where
  "select_defaults rag =
     (if member rag ''CHAT_UPLOAD_PROCESSING_MODE'' = Inr JUndefined
      then [Assign ''CHAT_UPLOAD_PROCESSING_MODE'' (JStr ''full_context'')] else [])
     @ (if member rag ''KNOWLEDGE_BASE_PROCESSING_MODE'' = Inr JUndefined
        then [Assign ''KNOWLEDGE_BASE_PROCESSING_MODE'' (JStr ''full_context'')] else [])"

definition view :: "'w panel \<Rightarrow> node list" where
  "view p =
     [Text_node (translate p ''General Settings'')]
     @ (if export_on (config p) then export_section (translate p) else [])
     @ (if truthy (RAGConfig p) then
          [Rule, Text_node (translate p ''Advanced Retrieval Settings''),
           Checkbox ''USE_ADVANCED_RETRIEVAL'' (translate p ''Enable Advanced Retrieval'')]
          @ (if advanced_on (RAGConfig p) then advanced_options (translate p) else [])
          @ [Rule] @ file_limits (translate p)
        else [])"

section \<open>Properties of the shell scripts\<close>

subsection \<open>Substring search\<close>

lemma starts_with_iff: "starts_with p s \<longleftrightarrow> (\<exists>v. s = p @ v)"
  by (induction p s rule: starts_with.induct) auto

lemma occurs_in_iff: "occurs_in p s \<longleftrightarrow> (\<exists>u v. s = u @ p @ v)"
proof (induction s)
  case Nil
  then show ?case by auto
next
  case (Cons c cs)
  show ?case
  proof
    assume "occurs_in p (c # cs)"
    then consider "starts_with p (c # cs)" | "occurs_in p cs" by auto
    then show "\<exists>u v. c # cs = u @ p @ v"
    proof cases
      case 1
      then obtain v where "c # cs = p @ v" by (auto simp: starts_with_iff)
      then have "c # cs = [] @ p @ v" by simp
      then show ?thesis by blast
    next
      case 2
      then obtain u v where "cs = u @ p @ v" using Cons.IH by auto
      then have "c # cs = (c # u) @ p @ v" by simp
      then show ?thesis by blast
    qed
  next
    assume "\<exists>u v. c # cs = u @ p @ v"
    then obtain u v where uv: "c # cs = u @ p @ v" by blast
    show "occurs_in p (c # cs)"
    proof (cases u)
      case Nil
      then have "starts_with p (c # cs)" using uv by (auto simp: starts_with_iff)
      then show ?thesis by simp
    next
      case (Cons a u')
      then have "cs = u' @ p @ v" using uv by simp
      then have "occurs_in p cs" using Cons.IH by blast
      then show ?thesis by simp
    qed
  qed
qed

lemma grep_q_iff:
  "grep_q pat input \<longleftrightarrow> (\<exists>l \<in> set (lines_of input). \<exists>u v. l = u @ pat @ v)"
  by (simp add: grep_q_def list_ex_iff occurs_in_iff)

lemmas symbol_defs = backslash_def magnifier_def check_mark_def cross_mark_def
  package_sign_def wrench_def clipboard_def floppy_def globe_def rocket_def bulb_def

lemmas bedrock_defs = banner_def test_env_file_def env_file_message_def docker_info_def
  docker_message_def images_grep_def gateway_message_def webui_message_def compose_down_def
  compose_up_def ps_grep_def start_services_def success_message_def failure_message_def

subsection \<open>The debug script\<close>

text \<open>
  C7. Whatever the commands it runs report, \<^verbatim>\<open>debug-openwebui.sh\<close> executes only
  inspecting commands: \<^verbatim>\<open>docker ps\<close> piped into \<^verbatim>\<open>grep\<close> and, when the container is listed,
  \<^verbatim>\<open>docker ps --filter\<close>, \<^verbatim>\<open>docker exec open-webui env\<close>, \<^verbatim>\<open>docker logs open-webui\<close>,
  \<^verbatim>\<open>docker exec open-webui ls\<close> of the data directory, \<^verbatim>\<open>docker exec open-webui ping\<close> and a
  \<^verbatim>\<open>curl\<close> of port 3000, with their text filters. None of them changes the system; the
  rest of the trace is printed text, and the script ends with status 0.
\<close>

theorem debug_script_only_inspects:
  "filter modifies_system (commands_of (trace (debug_openwebui e))) = []
   \<and> commands_of (trace (debug_openwebui e)) =
       [[''docker'', ''ps''], [''grep'', ''-q'', ''open-webui'']]
       @ (if grep_q ''open-webui'' (ps_out e) then
            [[''docker'', ''ps'', ''--filter'', ''name=open-webui'', ''--format'',
              ''table {{.Names}}'' @ backslash @ ''t{{.Status}}'' @ backslash @ ''t{{.Ports}}''],
             [''docker'', ''exec'', ''open-webui'', ''env''],
             [''grep'', ''-E'', ''(OLLAMA|OPENAI|WEBUI|DATABASE)''],
             [''sort''],
             [''docker'', ''logs'', ''open-webui''],
             [''grep'', ''-i'', ''-E'', ''(error|exception|failed|500)''],
             [''tail'', ''-20''],
             [''docker'', ''exec'', ''open-webui'', ''ls'', ''-la'', ''/app/backend/data/''],
             [''docker'', ''exec'', ''open-webui'', ''ping'', ''-c'', ''1'',
              ''host.docker.internal''],
             [''curl'', ''-s'', ''-o'', ''/dev/null'', ''-w'', ''%{http_code}'',
              ''http://localhost:3000''],
             [''grep'', ''-q'', ''500'']]
          else [])
   \<and> status (debug_openwebui e) = 0"
  by (simp add: debug_openwebui_def container_report_def start_hint_def port_check_def
      curl_uploads_def)

text \<open>
  C8. The port check prints the cross and \<^verbatim>\<open>Returns 500\<close> exactly when the container is
  listed and some line of what \<^verbatim>\<open>curl\<close> wrote for the status code contains \<^verbatim>\<open>500\<close>; in every
  other run that reaches the check it prints the check mark and \<^verbatim>\<open>OK\<close>. That includes
  \<^verbatim>\<open>curl\<close> writing nothing and \<^verbatim>\<open>curl\<close> writing \<^verbatim>\<open>000\<close>, its code for a failed connection, so
  a port that cannot be reached is reported as OK.
\<close>

theorem port_check_ok_unless_500:
  "(Echo (cross_mark @ '' Returns 500'') \<in> set (trace (debug_openwebui e))
      \<longleftrightarrow> grep_q ''open-webui'' (ps_out e) \<and> grep_q ''500'' (curl_out e))
   \<and> (Echo (check_mark @ '' OK'') \<in> set (trace (debug_openwebui e))
      \<longleftrightarrow> grep_q ''open-webui'' (ps_out e) \<and> \<not> grep_q ''500'' (curl_out e))
   \<and> (grep_q ''500'' (curl_out e)
      \<longleftrightarrow> (\<exists>l \<in> set (lines_of (curl_out e)). \<exists>u v. l = u @ ''500'' @ v))
   \<and> last (port_check '''') = Echo (check_mark @ '' OK'')
   \<and> last (port_check ''000'') = Echo (check_mark @ '' OK'')
   \<and> last (port_check ''500'') = Echo (cross_mark @ '' Returns 500'')"
proof -
  have a: "Echo (cross_mark @ '' Returns 500'') \<in> set (trace (debug_openwebui e))
      \<longleftrightarrow> grep_q ''open-webui'' (ps_out e) \<and> grep_q ''500'' (curl_out e)"
    by (simp add: debug_openwebui_def container_report_def start_hint_def port_check_def
        symbol_defs)
  have b: "Echo (check_mark @ '' OK'') \<in> set (trace (debug_openwebui e))
      \<longleftrightarrow> grep_q ''open-webui'' (ps_out e) \<and> \<not> grep_q ''500'' (curl_out e)"
    by (simp add: debug_openwebui_def container_report_def start_hint_def port_check_def
        symbol_defs)
  have c: "last (port_check '''') = Echo (check_mark @ '' OK'')"
    "last (port_check ''000'') = Echo (check_mark @ '' OK'')"
    "last (port_check ''500'') = Echo (cross_mark @ '' Returns 500'')"
    by (simp_all add: port_check_def grep_q_def)
  from a b c grep_q_iff [of "''500''" "curl_out e"] show ?thesis by blast
qed

theorem port_check_ok_unless_500_witness:
  "Echo (check_mark @ '' OK'')
     \<in> set (trace (debug_openwebui
          \<lparr>ps_out = ''open-webui'', ls_status = 0, ping_status = 0, curl_out = ''000''\<rparr>))
   \<and> Echo (cross_mark @ '' Returns 500'')
     \<in> set (trace (debug_openwebui
          \<lparr>ps_out = ''open-webui'', ls_status = 0, ping_status = 0, curl_out = ''500''\<rparr>))"
  using port_check_ok_unless_500
          [of "\<lparr>ps_out = ''open-webui'', ls_status = 0, ping_status = 0, curl_out = ''000''\<rparr>"]
        port_check_ok_unless_500
          [of "\<lparr>ps_out = ''open-webui'', ls_status = 0, ping_status = 0, curl_out = ''500''\<rparr>"]
  by (simp add: grep_q_def)

subsection \<open>The start script\<close>





text \<open>
  C6. When all four checks pass, the commands \<^verbatim>\<open>run-bedrock.sh\<close> executes are the checks,
  \<^verbatim>\<open>docker-compose -f docker-compose.bedrock.yaml down\<close> (with \<^verbatim>\<open>true\<close> when it fails),
  \<^verbatim>\<open>docker-compose --env-file .env.bedrock -f docker-compose.bedrock.yaml up -d\<close>,
  \<^verbatim>\<open>sleep 5\<close> and the \<^verbatim>\<open>docker ps\<close> checks of the result. The two \<^verbatim>\<open>docker-compose\<close> calls, in
  this order, are the only commands that change the system: the script creates and
  configures no container itself.
\<close>

theorem checks_passed_delegates_to_compose:
  "env_file_present e \<and> docker_info_status e = 0
   \<and> grep_q ''bedrock-gateway'' (images_out_gateway e)
   \<and> grep_q ''open-webui'' (images_out_webui e) \<longrightarrow>
     filter modifies_system (commands_of (trace (run_bedrock e))) =
       [[''docker-compose'', ''-f'', ''docker-compose.bedrock.yaml'', ''down''],
        [''docker-compose'', ''--env-file'', ''.env.bedrock'', ''-f'',
         ''docker-compose.bedrock.yaml'', ''up'', ''-d'']]
     \<and> commands_of (trace (run_bedrock e)) =
         [[''['', ''!'', ''-f'', ''.env.bedrock'', '']''],
          [''docker'', ''info''],
          [''docker'', ''images''], [''grep'', ''-q'', ''bedrock-gateway''],
          [''docker'', ''images''], [''grep'', ''-q'', ''open-webui''],
          [''docker-compose'', ''-f'', ''docker-compose.bedrock.yaml'', ''down'']]
         @ (if compose_down_status e = 0 then [] else [[''true'']])
         @ [[''docker-compose'', ''--env-file'', ''.env.bedrock'', ''-f'',
             ''docker-compose.bedrock.yaml'', ''up'', ''-d''],
            [''sleep'', ''5''],
            [''docker'', ''ps''], [''grep'', ''-q'', ''bedrock-gateway'']]
         @ (if grep_q ''bedrock-gateway'' (ps_out_gateway e)
            then [[''docker'', ''ps''], [''grep'', ''-q'', ''open-webui'']] else [])
     \<and> status (run_bedrock e) =
         (if grep_q ''bedrock-gateway'' (ps_out_gateway e)
             \<and> grep_q ''open-webui'' (ps_out_webui e) then 0 else 1)"
  by (simp add: run_bedrock_def final_check_def bedrock_defs)

theorem checks_passed_delegates_to_compose_witness:
  "filter modifies_system (commands_of (trace (run_bedrock
     \<lparr>env_file_present = True, docker_info_status = 0,
      images_out_gateway = ''bedrock-gateway latest'', images_out_webui = ''open-webui latest'',
      compose_down_status = 0, ps_out_gateway = ''bedrock-gateway Up'',
      ps_out_webui = ''open-webui Up''\<rparr>))) =
     [[''docker-compose'', ''-f'', ''docker-compose.bedrock.yaml'', ''down''],
      [''docker-compose'', ''--env-file'', ''.env.bedrock'', ''-f'',
       ''docker-compose.bedrock.yaml'', ''up'', ''-d'']]
   \<and> status (run_bedrock
     \<lparr>env_file_present = True, docker_info_status = 0,
      images_out_gateway = ''bedrock-gateway latest'', images_out_webui = ''open-webui latest'',
      compose_down_status = 0, ps_out_gateway = ''bedrock-gateway Up'',
      ps_out_webui = ''open-webui Up''\<rparr>) = 0"
  using checks_passed_delegates_to_compose
     [of "\<lparr>env_file_present = True, docker_info_status = 0,
      images_out_gateway = ''bedrock-gateway latest'', images_out_webui = ''open-webui latest'',
      compose_down_status = 0, ps_out_gateway = ''bedrock-gateway Up'',
      ps_out_webui = ''open-webui Up''\<rparr>"]
  by (simp add: grep_q_def)

section \<open>Properties of the settings panel\<close>

subsection \<open>The form never fails to render\<close>

lemma member_not_nullish: "\<not> nullish v \<Longrightarrow> \<exists>x. member v k = Inr x"
  by (cases v) auto

lemma truthy_not_nullish: "truthy v \<Longrightarrow> \<not> nullish v"
  by (cases v) auto

lemma optional_member_total: "\<exists>x. optional_member v k = Inr x"
  using member_not_nullish by (auto simp: optional_member_def)

lemma enable_admin_export_total: "\<exists>x. enable_admin_export cfg = Inr x"
proof -
  obtain f where f: "optional_member cfg ''features'' = Inr f"
    using optional_member_total by blast
  obtain x where "optional_member f ''enable_admin_export'' = Inr x"
    using optional_member_total by blast
  with f show ?thesis by (simp add: enable_admin_export_def)
qed

lemma export_guard_eq: "export_guard cfg = Inr (export_on cfg)"
proof -
  obtain x where "enable_admin_export cfg = Inr x"
    using enable_admin_export_total by blast
  then show ?thesis by (simp add: export_guard_def export_on_def)
qed

lemma config_section_eq:
  "config_section t rag =
     Inr (if truthy rag then
            [Rule, Text_node (t ''Advanced Retrieval Settings''),
             Checkbox ''USE_ADVANCED_RETRIEVAL'' (t ''Enable Advanced Retrieval'')]
            @ (if advanced_on rag then advanced_options t else [])
            @ [Rule] @ file_limits t
          else [])"
proof (cases "truthy rag")
  case True
  then obtain f where "member rag ''USE_ADVANCED_RETRIEVAL'' = Inr f"
    using member_not_nullish truthy_not_nullish by blast
  with True show ?thesis by (simp add: config_section_def advanced_on_def)
next
  case False
  then show ?thesis by (simp add: config_section_def)
qed

lemma render_eq: "render p = Inr (view p)"
  by (simp add: render_def export_guard_eq config_section_eq view_def)

lemma rendered_view: "rendered p n \<longleftrightarrow> n \<in> set (view p)"
  by (simp add: rendered_def render_eq)

lemmas markup_defs = export_section_def advanced_options_def file_limits_def

subsection \<open>Which controls are in the form\<close>

lemma advanced_on_object: "advanced_on rag \<Longrightarrow> is_object rag"
  by (cases rag) (auto simp: advanced_on_def)

lemma is_object_truthy: "is_object v \<Longrightarrow> truthy v"
  by (cases v) auto

lemma advanced_on_truthy: "advanced_on rag \<Longrightarrow> truthy rag"
  by (simp add: advanced_on_object is_object_truthy)


lemma rendered_button: "rendered p (Button (translate p ''Export All'')) = export_on (config p)"
  by (simp add: rendered_view view_def markup_defs)

lemma has_button_view: "has_button (view p) = export_on (config p)"
  by (simp add: view_def markup_defs)

lemma has_checkbox_view:
  "has_checkbox k (view p) =
     (truthy (RAGConfig p) \<and>
      (k = ''USE_ADVANCED_RETRIEVAL'' \<or> (advanced_on (RAGConfig p) \<and> k \<in> set checkbox_keys)))"
  by (auto simp add: view_def markup_defs checkbox_keys_def)

lemma has_number_input_view:
  "has_number_input k (view p) = (truthy (RAGConfig p) \<and> k \<in> set limit_keys)"
  by (auto simp add: view_def markup_defs limit_keys_def)

lemma options_of_view:
  "options_of k (view p) =
     (if truthy (RAGConfig p) \<and> advanced_on (RAGConfig p) \<and> k \<in> set mode_keys
      then Some (mode_options (translate p)) else None)"
  by (auto simp add: view_def markup_defs mode_keys_def)

lemma selects_of_view:
  "selects_of (view p) =
     (if advanced_on (RAGConfig p)
      then [(''CHAT_UPLOAD_PROCESSING_MODE'', mode_options (translate p)),
            (''KNOWLEDGE_BASE_PROCESSING_MODE'', mode_options (translate p))]
      else [])"
  using advanced_on_truthy [of "RAGConfig p"]
  by (auto simp add: view_def markup_defs)




lemma other_keys_not_flag:
  "k \<in> set checkbox_keys \<or> k \<in> set mode_keys \<or> k \<in> set limit_keys \<Longrightarrow>
     k \<noteq> ''USE_ADVANCED_RETRIEVAL''"
  by (auto simp: mode_keys_def checkbox_keys_def limit_keys_def)


subsection \<open>What the listeners of each event do\<close>

lemma listeners_Click_export:
  "listeners p Click_export = (if export_on (config p) then on_click_export p else p)"
  by (simp add: listeners_def render_eq has_button_view)

lemma listeners_Change_checkbox:
  "listeners p (Change_checkbox k b) =
     (if truthy (RAGConfig p) \<and>
         (k = ''USE_ADVANCED_RETRIEVAL'' \<or> (advanced_on (RAGConfig p) \<and> k \<in> set checkbox_keys))
      then on_change (bind_write k (JBool b) p) else p)"
  by (simp add: listeners_def render_eq has_checkbox_view)

lemma listeners_Change_select:
  "listeners p (Change_select k i) =
     (if advanced_on (RAGConfig p) \<and> k \<in> set mode_keys \<and> i < 3
      then on_change (bind_write k (JStr (modes ! i)) p) else p)"
proof -
  have "i < 3 \<Longrightarrow> fst (mode_options t ! i) = modes ! i" for t
    by (cases i rule: nat.exhaust;
        simp add: mode_options_def modes_def less_Suc_eq numeral_3_eq_3; auto)
  then show ?thesis
    using advanced_on_truthy [of "RAGConfig p"]
    by (auto simp add: listeners_def render_eq options_of_view mode_options_def)
qed

lemma listeners_Input_number:
  "listeners p (Input_number k x) =
     (if truthy (RAGConfig p) \<and> k \<in> set limit_keys then bind_write k (to_number x) p else p)"
  by (simp add: listeners_def render_eq has_number_input_view)

lemma listeners_Change_number:
  "listeners p (Change_number k) =
     (if truthy (RAGConfig p) \<and> k \<in> set limit_keys then on_change p else p)"
  by (simp add: listeners_def render_eq has_number_input_view)

lemma effects_bind_write:
  "effects (bind_write k v p) =
     effects p @ (if is_object (RAGConfig p) then [Assign k v] else [])"
  by (cases "RAGConfig p") (auto simp: bind_write_def)

lemma frame_bind_write [simp]:
  "world (bind_write k v p) = world p"
  "config (bind_write k v p) = config p"
  "translate (bind_write k v p) = translate p"
  "updateHandler (bind_write k v p) = updateHandler p"
  by (auto simp: bind_write_def split: sum.splits)

lemma is_object_bind_write [simp]:
  "is_object (RAGConfig (bind_write k v p)) = is_object (RAGConfig p)"
  by (cases "RAGConfig p") (auto simp: bind_write_def)

lemma truthy_bind_write [simp]:
  "truthy (RAGConfig (bind_write k v p)) = truthy (RAGConfig p)"
  by (cases "RAGConfig p") (auto simp: bind_write_def)

lemma member_bind_write:
  "member (RAGConfig (bind_write k v p)) m =
     (if m = k \<and> is_object (RAGConfig p) then Inr v else member (RAGConfig p) m)"
  by (cases "RAGConfig p") (auto simp: bind_write_def update_conv')

lemma advanced_on_bind_write:
  "advanced_on (RAGConfig (bind_write k v p)) =
     (if k = ''USE_ADVANCED_RETRIEVAL'' \<and> is_object (RAGConfig p) then truthy v
      else advanced_on (RAGConfig p))"
  by (simp add: advanced_on_def member_bind_write)

lemma select_defaults_bind_write:
  "k \<notin> set mode_keys \<Longrightarrow>
     select_defaults (RAGConfig (bind_write k v p)) = select_defaults (RAGConfig p)"
  by (auto simp add: select_defaults_def member_bind_write mode_keys_def)

lemma on_change_simps [simp]:
  "effects (on_change p) = effects p @ [Call_updateHandler]"
  "RAGConfig (on_change p) = RAGConfig p"
  "config (on_change p) = config p"
  "translate (on_change p) = translate p"
  "updateHandler (on_change p) = updateHandler p"
  "world (on_change p) = updateHandler p (world p)"
  by (simp_all add: on_change_def)

lemma on_click_export_simps [simp]:
  "effects (on_click_export p) =
     effects p @ [Toast_info (translate p ''Export functionality not yet implemented'')]"
  "RAGConfig (on_click_export p) = RAGConfig p"
  "config (on_click_export p) = config p"
  "translate (on_click_export p) = translate p"
  "updateHandler (on_click_export p) = updateHandler p"
  "world (on_click_export p) = world p"
  by (simp_all add: on_click_export_def)

lemma emitted_same [simp]: "emitted p p = []"
  by (simp add: emitted_def)

subsection \<open>New selects\<close>

lemma created_selects_eq:
  "created_selects p q =
     (if advanced_on (RAGConfig q) \<and> \<not> advanced_on (RAGConfig p)
      then [(''CHAT_UPLOAD_PROCESSING_MODE'', mode_options (translate q)),
            (''KNOWLEDGE_BASE_PROCESSING_MODE'', mode_options (translate q))]
      else [])"
  by (cases "advanced_on (RAGConfig p)"; cases "advanced_on (RAGConfig q)")
     (simp_all add: created_selects_def render_eq selects_of_view)

lemma init_selects_Nil [simp]: "init_selects [] q = q"
  by (simp add: init_selects_def)

lemma init_selects_modes:
  assumes "is_object (RAGConfig q)"
  shows "effects (init_selects [(''CHAT_UPLOAD_PROCESSING_MODE'', mode_options t),
                                (''KNOWLEDGE_BASE_PROCESSING_MODE'', mode_options t)] q) =
           effects q @ select_defaults (RAGConfig q)"
    and "member (RAGConfig (init_selects [(''CHAT_UPLOAD_PROCESSING_MODE'', mode_options t),
                                (''KNOWLEDGE_BASE_PROCESSING_MODE'', mode_options t)] q)) m =
           (if m \<in> set mode_keys \<and> member (RAGConfig q) m = Inr JUndefined
            then Inr (JStr ''full_context'') else member (RAGConfig q) m)"
    and "is_object (RAGConfig (init_selects [(''CHAT_UPLOAD_PROCESSING_MODE'', mode_options t),
                                (''KNOWLEDGE_BASE_PROCESSING_MODE'', mode_options t)] q))"
  using assms
  by (auto simp add: init_selects_def first_option_value_def mode_options_def
      select_defaults_def effects_bind_write member_bind_write mode_keys_def)

lemma init_selects_frame [simp]:
  "world (init_selects sels q) = world q"
  "config (init_selects sels q) = config q"
  "translate (init_selects sels q) = translate q"
  "updateHandler (init_selects sels q) = updateHandler q"
proof -
  have "world (foldl (\<lambda>q (k, opts). bind_write k (first_option_value opts) q) r xs) = world r
      \<and> config (foldl (\<lambda>q (k, opts). bind_write k (first_option_value opts) q) r xs) = config r
      \<and> translate (foldl (\<lambda>q (k, opts). bind_write k (first_option_value opts) q) r xs)
          = translate r
      \<and> updateHandler (foldl (\<lambda>q (k, opts). bind_write k (first_option_value opts) q) r xs)
          = updateHandler r"
    for r :: "'a panel" and xs
    by (induction xs arbitrary: r) (auto split: prod.splits)
  then show "world (init_selects sels q) = world q"
    "config (init_selects sels q) = config q"
    "translate (init_selects sels q) = translate q"
    "updateHandler (init_selects sels q) = updateHandler q"
    by (simp_all add: init_selects_def)
qed

lemma flush_eq:
  "flush p q =
     (if advanced_on (RAGConfig q) \<and> \<not> advanced_on (RAGConfig p)
      then init_selects [(''CHAT_UPLOAD_PROCESSING_MODE'', mode_options (translate q)),
                         (''KNOWLEDGE_BASE_PROCESSING_MODE'', mode_options (translate q))] q
      else q)"
  by (simp add: flush_def created_selects_eq)

lemma props_simps [simp]:
  "RAGConfig (props t cfg w h r) =
     (case r of None \<Rightarrow> JNull | Some v \<Rightarrow> (if v = JUndefined then JNull else v))"
  "updateHandler (props t cfg w h r) = (case h of None \<Rightarrow> (\<lambda>x. x) | Some f \<Rightarrow> f)"
  "config (props t cfg w h r) = cfg"
  "translate (props t cfg w h r) = t"
  "world (props t cfg w h r) = w"
  "effects (props t cfg w h r) = []"
  by (simp_all add: props_def)

lemma mount_eq:
  "mount t cfg w h r =
     (if advanced_on (RAGConfig (props t cfg w h r))
      then init_selects [(''CHAT_UPLOAD_PROCESSING_MODE'', mode_options t),
                         (''KNOWLEDGE_BASE_PROCESSING_MODE'', mode_options t)]
             (props t cfg w h r)
      else props t cfg w h r)"
  by (simp add: mount_def render_eq selects_of_view)

lemma mount_frame [simp]:
  "world (mount t cfg w h r) = w"
  "config (mount t cfg w h r) = cfg"
  "translate (mount t cfg w h r) = t"
  "updateHandler (mount t cfg w h r) = (case h of None \<Rightarrow> (\<lambda>x. x) | Some f \<Rightarrow> f)"
  by (simp_all add: mount_eq)

lemma mount_no_config [simp]:
  "RAGConfig (mount t cfg w h None) = JNull"
  "RAGConfig (mount t cfg w h (Some JUndefined)) = JNull"
  "effects (mount t cfg w h None) = []"
  by (simp_all add: mount_eq advanced_on_def)

subsection \<open>What each event does\<close>

lemma dispatch_Click_export:
  "dispatch p Click_export = (if export_on (config p) then on_click_export p else p)"
  by (simp add: dispatch_def listeners_Click_export flush_eq)

lemma dispatch_Change_checkbox:
  "dispatch p (Change_checkbox k b) =
     (if truthy (RAGConfig p) \<and>
         (k = ''USE_ADVANCED_RETRIEVAL'' \<or> (advanced_on (RAGConfig p) \<and> k \<in> set checkbox_keys))
      then (if k = ''USE_ADVANCED_RETRIEVAL'' \<and> b \<and> is_object (RAGConfig p)
               \<and> \<not> advanced_on (RAGConfig p)
            then init_selects
                   [(''CHAT_UPLOAD_PROCESSING_MODE'', mode_options (translate p)),
                    (''KNOWLEDGE_BASE_PROCESSING_MODE'', mode_options (translate p))]
                   (on_change (bind_write k (JBool b) p))
            else on_change (bind_write k (JBool b) p))
      else p)"
  using other_keys_not_flag [of k] advanced_on_object [of "RAGConfig p"]
  by (auto simp add: dispatch_def listeners_Change_checkbox flush_eq advanced_on_bind_write)

lemma dispatch_Change_select:
  "dispatch p (Change_select k i) =
     (if advanced_on (RAGConfig p) \<and> k \<in> set mode_keys \<and> i < 3
      then on_change (bind_write k (JStr (modes ! i)) p) else p)"
  by (simp add: dispatch_def listeners_Change_select flush_eq)

lemma dispatch_Input_number:
  "dispatch p (Input_number k x) =
     (if truthy (RAGConfig p) \<and> k \<in> set limit_keys then bind_write k (to_number x) p else p)"
  using other_keys_not_flag [of k]
  by (auto simp add: dispatch_def listeners_Input_number flush_eq advanced_on_bind_write)

lemma dispatch_Change_number:
  "dispatch p (Change_number k) =
     (if truthy (RAGConfig p) \<and> k \<in> set limit_keys then on_change p else p)"
  by (simp add: dispatch_def listeners_Change_number flush_eq)

subsection \<open>What each interaction adds to the log\<close>

lemma emitted_Press:
  "emitted p (perform p Press_export) =
     (if export_on (config p)
      then [Toast_info (translate p ''Export functionality not yet implemented'')] else [])"
  by (simp add: perform_def dispatch_Click_export emitted_def)

lemma emitted_Toggle:
  "emitted p (perform p (Toggle k b)) =
     (if truthy (RAGConfig p) \<and>
         (k = ''USE_ADVANCED_RETRIEVAL'' \<or> (advanced_on (RAGConfig p) \<and> k \<in> set checkbox_keys))
      then (if is_object (RAGConfig p) then [Assign k (JBool b)] else [])
           @ [Call_updateHandler]
           @ (if k = ''USE_ADVANCED_RETRIEVAL'' \<and> b \<and> is_object (RAGConfig p)
                 \<and> \<not> advanced_on (RAGConfig p)
              then select_defaults (RAGConfig p) else [])
      else [])"
proof -
  have "''USE_ADVANCED_RETRIEVAL'' \<notin> set mode_keys"
    by (simp add: mode_keys_def)
  then show ?thesis
    by (simp add: perform_def dispatch_Change_checkbox emitted_def effects_bind_write
        init_selects_modes(1) select_defaults_bind_write)
qed

lemma emitted_Choose:
  "emitted p (perform p (Choose k i)) =
     (if advanced_on (RAGConfig p) \<and> k \<in> set mode_keys \<and> i < 3
      then [Assign k (JStr (modes ! i)), Call_updateHandler] else [])"
  using advanced_on_object [of "RAGConfig p"]
  by (simp add: perform_def dispatch_Change_select emitted_def effects_bind_write)

lemma inputs_not_rendered:
  "\<not> (truthy (RAGConfig p) \<and> k \<in> set limit_keys) \<Longrightarrow>
     foldl dispatch p (map (Input_number k) xs) = p"
  by (induction xs) (auto simp: dispatch_Input_number)

lemma inputs_rendered:
  "truthy (RAGConfig p) \<Longrightarrow> k \<in> set limit_keys \<Longrightarrow>
     effects (foldl dispatch p (map (Input_number k) xs)) =
       effects p
       @ (if is_object (RAGConfig p) then map (\<lambda>x. Assign k (to_number x)) xs else [])
     \<and> truthy (RAGConfig (foldl dispatch p (map (Input_number k) xs)))
     \<and> world (foldl dispatch p (map (Input_number k) xs)) = world p
     \<and> updateHandler (foldl dispatch p (map (Input_number k) xs)) = updateHandler p"
proof (induction xs arbitrary: p)
  case Nil
  then show ?case by simp
next
  case (Cons x xs)
  let ?q = "bind_write k (to_number x) p"
  have q: "dispatch p (Input_number k x) = ?q"
    using Cons.prems by (simp add: dispatch_Input_number)
  have "truthy (RAGConfig ?q)" using Cons.prems by simp
  from Cons.IH [OF this Cons.prems(2)] show ?case
    by (simp add: q effects_bind_write)
qed

lemma emitted_Edit:
  "emitted p (perform p (Edit k xs c)) =
     (if truthy (RAGConfig p) \<and> k \<in> set limit_keys
      then (if is_object (RAGConfig p) then map (\<lambda>x. Assign k (to_number x)) xs else [])
           @ (if c then [Call_updateHandler] else [])
      else [])"
proof (cases "truthy (RAGConfig p) \<and> k \<in> set limit_keys")
  case True
  then show ?thesis
    using inputs_rendered [of p k xs]
    by (simp add: perform_def dispatch_Change_number emitted_def)
next
  case False
  then show ?thesis
    using inputs_not_rendered [of p k xs]
    by (auto simp add: perform_def dispatch_Change_number)
qed

lemma world_Edit:
  "world (perform p (Edit k xs c)) =
     (if truthy (RAGConfig p) \<and> k \<in> set limit_keys \<and> c
      then updateHandler p (world p) else world p)"
proof (cases "truthy (RAGConfig p) \<and> k \<in> set limit_keys")
  case True
  then show ?thesis
    using inputs_rendered [of p k xs]
    by (simp add: perform_def dispatch_Change_number)
next
  case False
  then show ?thesis
    using inputs_not_rendered [of p k xs]
    by (auto simp add: perform_def dispatch_Change_number)
qed

lemma world_perform:
  "world (perform p i) =
     (if Call_updateHandler \<in> set (emitted p (perform p i))
      then updateHandler p (world p) else world p)"
proof (cases i)
  case Press_export
  then show ?thesis
    by (simp add: emitted_Press) (simp add: perform_def dispatch_Click_export)
next
  case (Toggle k b)
  then show ?thesis
    by (simp add: emitted_Toggle) (auto simp add: perform_def dispatch_Change_checkbox)
next
  case (Choose k j)
  then show ?thesis
    by (simp add: emitted_Choose) (simp add: perform_def dispatch_Change_select)
next
  case (Edit k xs c)
  have "Call_updateHandler \<notin> set (map (\<lambda>x. Assign k (to_number x)) xs)"
    by auto
  with Edit show ?thesis
    by (simp add: emitted_Edit world_Edit)
qed

lemma writes_followed_assigns:
  "writes_followed (map (\<lambda>x. Assign k (f x)) xs @ [Call_updateHandler])"
  by (induction xs) auto

lemma writes_followed_listeners:
  "(\<forall>k x. ev \<noteq> Input_number k x) \<Longrightarrow> writes_followed (emitted p (listeners p ev))"
  by (cases ev)
     (simp_all add: listeners_Click_export listeners_Change_checkbox listeners_Change_select
        listeners_Change_number emitted_def effects_bind_write)

lemma no_exports_perform: "filter exports (emitted p (perform p i)) = []"
proof (cases i)
  case Press_export
  then show ?thesis by (simp add: emitted_Press)
next
  case (Toggle k b)
  then show ?thesis by (simp add: emitted_Toggle select_defaults_def)
next
  case (Choose k j)
  then show ?thesis by (simp add: emitted_Choose)
next
  case (Edit k xs c)
  have "filter exports (map (\<lambda>x. Assign k (to_number x)) xs) = []"
    by (induction xs) auto
  with Edit show ?thesis by (simp add: emitted_Edit)
qed

lemma effects_mount:
  "effects (mount t cfg w h r) =
     (if advanced_on (RAGConfig (props t cfg w h r))
      then select_defaults (RAGConfig (props t cfg w h r)) else [])"
  using advanced_on_object [of "RAGConfig (props t cfg w h r)"]
  by (simp add: mount_eq init_selects_modes(1))

subsection \<open>The processing modes stay enumerated\<close>






subsection \<open>The configuration after mounting\<close>


lemma mount_no_defaults:
  "\<not> advanced_on (RAGConfig (props t cfg w h r))
     \<or> select_defaults (RAGConfig (props t cfg w h r)) = [] \<Longrightarrow>
   mount t cfg w h r = props t cfg w h r"
  by (auto simp add: mount_eq init_selects_def select_defaults_def split: if_splits)

subsection \<open>The export button\<close>

text \<open>
  C1. A click on the \<^verbatim>\<open>Export All\<close> button, which reaches the handler whenever the button is
  in the form, adds exactly one entry to the log: the informational toast with the
  translation of \<^verbatim>\<open>Export functionality not yet implemented\<close>. No API call, download,
  error toast or success toast is logged, nothing is assigned to \<^verbatim>\<open>RAGConfig\<close>, and
  \<^verbatim>\<open>RAGConfig\<close>, the store and the application outside the component are left as they were.
\<close>

theorem export_click_only_toasts:
  "emitted p (dispatch p Click_export) =
     (if rendered p (Button (translate p ''Export All''))
      then [Toast_info (translate p ''Export functionality not yet implemented'')] else [])
   \<and> emitted p (on_click_export p) =
       [Toast_info (translate p ''Export functionality not yet implemented'')]
   \<and> filter exports (emitted p (dispatch p Click_export)) = []
   \<and> RAGConfig (dispatch p Click_export) = RAGConfig p
   \<and> RAGConfig (on_click_export p) = RAGConfig p
   \<and> world (dispatch p Click_export) = world p
   \<and> config (dispatch p Click_export) = config p"
  by (simp add: dispatch_Click_export rendered_button on_click_export_def emitted_def)

theorem export_click_only_toasts_witness:
  "emitted (mount (\<lambda>s. s) JNull (0::nat) None None)
     (dispatch (mount (\<lambda>s. s) JNull (0::nat) None None) Click_export) =
     [Toast_info ''Export functionality not yet implemented'']"
proof -
  have "rendered (mount (\<lambda>s. s) JNull (0::nat) None None) (Button ''Export All'')"
    using rendered_button [of "mount (\<lambda>s. s) JNull (0::nat) None None"]
    by (simp add: export_on_def export_guard_def enable_admin_export_def
        optional_member_def coalesce_def)
  then show ?thesis
    using export_click_only_toasts [of "mount (\<lambda>s. s) JNull (0::nat) None None"]
    by simp
qed

text \<open>
  C9. Reading \<^verbatim>\<open>$config?.features?.enable_admin_export\<close> never throws. With \<open>v\<close> its value,
  the export button is in the form exactly when \<open>v\<close> is \<^verbatim>\<open>null\<close>, \<^verbatim>\<open>undefined\<close> or truthy; for
  a flag that is absent or a boolean, that is exactly when \<open>v\<close> is not \<^verbatim>\<open>false\<close>. When the
  store is \<^verbatim>\<open>null\<close> or \<^verbatim>\<open>undefined\<close>, or its \<^verbatim>\<open>features\<close> is, \<open>v\<close> is \<^verbatim>\<open>undefined\<close> and the
  button is shown.
\<close>

theorem export_section_guard:
  "\<exists>v. enable_admin_export (config p) = Inr v
     \<and> (rendered p (Button (translate p ''Export All'')) \<longleftrightarrow> nullish v \<or> truthy v)
     \<and> (nullish v \<or> v = JBool True \<or> v = JBool False \<longrightarrow>
          (rendered p (Button (translate p ''Export All'')) \<longleftrightarrow> v \<noteq> JBool False))
     \<and> (nullish (config p) \<longrightarrow> nullish v)
     \<and> (\<forall>f. member (config p) ''features'' = Inr f \<and> nullish f \<longrightarrow> nullish v)"
proof -
  obtain v where v: "enable_admin_export (config p) = Inr v"
    using enable_admin_export_total by blast
  have "export_on (config p) \<longleftrightarrow> nullish v \<or> truthy v"
    using v by (cases v) (auto simp: export_on_def export_guard_def coalesce_def)
  then have a: "rendered p (Button (translate p ''Export All'')) \<longleftrightarrow> nullish v \<or> truthy v"
    by (simp add: rendered_button)
  have b: "nullish v \<or> v = JBool True \<or> v = JBool False \<longrightarrow>
          (rendered p (Button (translate p ''Export All'')) \<longleftrightarrow> v \<noteq> JBool False)"
    unfolding a by (cases v) auto
  have c: "nullish (config p) \<longrightarrow> nullish v"
    using v by (auto simp: enable_admin_export_def optional_member_def)
  have d: "\<forall>f. member (config p) ''features'' = Inr f \<and> nullish f \<longrightarrow> nullish v"
    using v by (auto simp: enable_admin_export_def optional_member_def split: if_splits)
  from v a b c d show ?thesis by blast
qed

theorem export_section_guard_witness:
  "rendered (mount (\<lambda>s. s) JNull (0::nat) None None) (Button ''Export All'')
   \<and> rendered (mount (\<lambda>s. s) (JObj []) (0::nat) None None) (Button ''Export All'')
   \<and> rendered (mount (\<lambda>s. s) (JObj [(''features'', JObj [])]) (0::nat) None None)
       (Button ''Export All'')
   \<and> rendered (mount (\<lambda>s. s) (JObj [(''features'', JObj [(''enable_admin_export'', JBool True)])])
       (0::nat) None None) (Button ''Export All'')
   \<and> \<not> rendered (mount (\<lambda>s. s) (JObj [(''features'', JObj [(''enable_admin_export'', JBool False)])])
       (0::nat) None None) (Button ''Export All'')"
  using export_section_guard [of "mount (\<lambda>s. s) JNull (0::nat) None None"]
    export_section_guard [of "mount (\<lambda>s. s) (JObj []) (0::nat) None None"]
    export_section_guard [of "mount (\<lambda>s. s) (JObj [(''features'', JObj [])]) (0::nat) None None"]
    export_section_guard [of "mount (\<lambda>s. s)
       (JObj [(''features'', JObj [(''enable_admin_export'', JBool True)])]) (0::nat) None None"]
    export_section_guard [of "mount (\<lambda>s. s)
       (JObj [(''features'', JObj [(''enable_admin_export'', JBool False)])]) (0::nat) None None"]
  by (simp add: enable_admin_export_def optional_member_def)

subsection \<open>The advanced retrieval options\<close>



subsection \<open>Defaults of the props\<close>

text \<open>
  C10. A component mounted without props has \<^verbatim>\<open>RAGConfig = null\<close> and an \<^verbatim>\<open>updateHandler\<close>
  that changes nothing; \<^verbatim>\<open>RAGConfig\<close> passed as \<^verbatim>\<open>undefined\<close> also becomes \<^verbatim>\<open>null\<close>. Whenever
  \<^verbatim>\<open>RAGConfig\<close> is falsy, the form consists of the heading, followed by the export section
  when its guard holds: no rule, no advanced retrieval setting and no file upload limit is
  rendered.
\<close>

theorem defaults_and_null_config:
  "RAGConfig (mount t cfg w None None) = JNull
   \<and> updateHandler (mount t cfg w None None) x = x
   \<and> world (on_change (mount t cfg w None r)) = w
   \<and> RAGConfig (mount t cfg w h (Some JUndefined)) = JNull
   \<and> (\<not> truthy (RAGConfig p) \<longrightarrow>
        render p = Inr (Text_node (translate p ''General Settings'')
                        # (if rendered p (Button (translate p ''Export All''))
                           then export_section (translate p) else [])))
   \<and> render (mount t cfg w h None) =
        Inr (Text_node (t ''General Settings'')
             # (if rendered (mount t cfg w h None) (Button (t ''Export All''))
                then export_section t else []))"
proof -
  have m: "translate (mount t cfg w h None) = t" "\<not> truthy (RAGConfig (mount t cfg w h None))"
    by simp_all
  have r: "\<not> truthy (RAGConfig q) \<Longrightarrow>
        render q = Inr (Text_node (translate q ''General Settings'')
                        # (if rendered q (Button (translate q ''Export All''))
                           then export_section (translate q) else []))" for q :: "'c panel"
    by (simp add: render_eq view_def rendered_button)
  have d: "render (mount t cfg w h None) =
        Inr (Text_node (t ''General Settings'')
             # (if rendered (mount t cfg w h None) (Button (t ''Export All''))
                then export_section t else []))"
    using r [of "mount t cfg w h None"] m by simp
  have a: "RAGConfig (mount t cfg w None None) = JNull"
    "updateHandler (mount t cfg w None None) x = x"
    "world (on_change (mount t cfg w None r)) = w"
    "RAGConfig (mount t cfg w h (Some JUndefined)) = JNull"
    by simp_all
  from a d r [of p] show ?thesis by blast
qed

theorem defaults_and_null_config_witness:
  "render (mount (\<lambda>s. s) JNull (0::nat) None None) =
     Inr (Text_node ''General Settings''
          # (if rendered (mount (\<lambda>s. s) JNull (0::nat) None None) (Button ''Export All'')
             then export_section (\<lambda>s. s) else []))"
proof -
  let ?p = "mount (\<lambda>s. s) JNull (0::nat) None None"
  have "\<not> truthy (RAGConfig ?p)" and t: "translate ?p = (\<lambda>s. s)"
    by simp_all
  then have "render ?p = Inr (Text_node (translate ?p ''General Settings'')
                        # (if rendered ?p (Button (translate ?p ''Export All''))
                           then export_section (translate ?p) else []))"
    by (intro defaults_and_null_config [where p = ?p, THEN conjunct2, THEN conjunct2,
          THEN conjunct2, THEN conjunct2, THEN conjunct1, THEN mp])
  then show ?thesis unfolding t .
qed

subsection \<open>Writes and the update callback\<close>

text \<open>
  C5, as stated, fails. With \<^verbatim>\<open>RAGConfig\<close> holding only \<^verbatim>\<open>USE_ADVANCED_RETRIEVAL = false\<close>,
  ticking \<^verbatim>\<open>Enable Advanced Retrieval\<close> writes the flag and calls \<^verbatim>\<open>updateHandler\<close>; the two
  selects then come into the form and each assigns \<^verbatim>\<open>full_context\<close> to its undefined
  property, after the call and without another one. And a number field that is edited
  but for which the browser fires no \<^verbatim>\<open>change\<close> (the value typed and deleted again, or the
  edit not committed) has written on every \<^verbatim>\<open>input\<close> without any call.
\<close>

theorem writes_without_updateHandler:
  "emitted (mount (\<lambda>s. s) JNull (0::nat) None
              (Some (JObj [(''USE_ADVANCED_RETRIEVAL'', JBool False)])))
     (perform (mount (\<lambda>s. s) JNull (0::nat) None
              (Some (JObj [(''USE_ADVANCED_RETRIEVAL'', JBool False)])))
        (Toggle ''USE_ADVANCED_RETRIEVAL'' True))
     = [Assign ''USE_ADVANCED_RETRIEVAL'' (JBool True), Call_updateHandler,
        Assign ''CHAT_UPLOAD_PROCESSING_MODE'' (JStr ''full_context''),
        Assign ''KNOWLEDGE_BASE_PROCESSING_MODE'' (JStr ''full_context'')]
   \<and> \<not> writes_followed
       (emitted (mount (\<lambda>s. s) JNull (0::nat) None
              (Some (JObj [(''USE_ADVANCED_RETRIEVAL'', JBool False)])))
         (perform (mount (\<lambda>s. s) JNull (0::nat) None
              (Some (JObj [(''USE_ADVANCED_RETRIEVAL'', JBool False)])))
            (Toggle ''USE_ADVANCED_RETRIEVAL'' True)))
   \<and> emitted (mount (\<lambda>s. s) JNull (0::nat) None (Some (JObj [(''FILE_MAX_SIZE'', JNull)])))
     (perform (mount (\<lambda>s. s) JNull (0::nat) None (Some (JObj [(''FILE_MAX_SIZE'', JNull)])))
        (Edit ''FILE_MAX_SIZE'' [Some 5, None] False))
     = [Assign ''FILE_MAX_SIZE'' (JNum 5), Assign ''FILE_MAX_SIZE'' JNull]
   \<and> \<not> writes_followed
       (emitted (mount (\<lambda>s. s) JNull (0::nat) None (Some (JObj [(''FILE_MAX_SIZE'', JNull)])))
         (perform (mount (\<lambda>s. s) JNull (0::nat) None (Some (JObj [(''FILE_MAX_SIZE'', JNull)])))
            (Edit ''FILE_MAX_SIZE'' [Some 5, None] False)))"
proof -
  have a: "mount (\<lambda>s. s) JNull (0::nat) None
              (Some (JObj [(''USE_ADVANCED_RETRIEVAL'', JBool False)]))
           = props (\<lambda>s. s) JNull (0::nat) None
              (Some (JObj [(''USE_ADVANCED_RETRIEVAL'', JBool False)]))"
    by (rule mount_no_defaults) (simp add: advanced_on_def)
  have b: "mount (\<lambda>s. s) JNull (0::nat) None (Some (JObj [(''FILE_MAX_SIZE'', JNull)]))
           = props (\<lambda>s. s) JNull (0::nat) None (Some (JObj [(''FILE_MAX_SIZE'', JNull)]))"
    by (rule mount_no_defaults) (simp add: advanced_on_def)
  show ?thesis
    unfolding a b
    by (simp add: emitted_Toggle emitted_Edit advanced_on_def select_defaults_def
        limit_keys_def to_number_def)
qed

text \<open>
  C5, amended. Every write to \<^verbatim>\<open>RAGConfig\<close> that the listeners of a \<^verbatim>\<open>change\<close> event make is
  followed, in that event, by the call of \<^verbatim>\<open>updateHandler\<close>: ticking a checkbox that is in
  the form logs the assignment of its property and then the call, and choosing an option
  of a select logs the assignment of the option's value and then the call. A number
  field logs one assignment per \<^verbatim>\<open>input\<close>, and the call when the browser fires \<^verbatim>\<open>change\<close> for
  the edit. The value \<^verbatim>\<open>full_context\<close> that a select new to the form assigns to an undefined
  processing-mode property, at mount or after \<^verbatim>\<open>Enable Advanced Retrieval\<close> has been ticked,
  is written without a call. Nothing else that would store or send the configuration is
  logged, and the call applies \<^verbatim>\<open>updateHandler\<close> once to the state outside the component.
\<close>

theorem change_writes_followed_by_updateHandler:
  "((\<forall>k' x. ev \<noteq> Input_number k' x) \<longrightarrow> writes_followed (emitted p (listeners p ev)))
   \<and> emitted p (perform p (Toggle k b)) =
       (if truthy (RAGConfig p) \<and>
           (k = ''USE_ADVANCED_RETRIEVAL''
            \<or> (advanced_on (RAGConfig p) \<and> k \<in> set checkbox_keys))
        then (if is_object (RAGConfig p) then [Assign k (JBool b)] else [])
             @ [Call_updateHandler]
             @ (if k = ''USE_ADVANCED_RETRIEVAL'' \<and> b \<and> is_object (RAGConfig p)
                   \<and> \<not> advanced_on (RAGConfig p)
                then select_defaults (RAGConfig p) else [])
        else [])
   \<and> emitted p (perform p (Choose k j)) =
       (if advanced_on (RAGConfig p) \<and> k \<in> set mode_keys \<and> j < 3
        then [Assign k (JStr ([''full_context'', ''chunked_vectorized'', ''hybrid''] ! j)),
              Call_updateHandler]
        else [])
   \<and> emitted p (perform p (Edit k xs c)) =
       (if truthy (RAGConfig p) \<and> k \<in> set limit_keys
        then (if is_object (RAGConfig p) then map (\<lambda>x. Assign k (to_number x)) xs else [])
             @ (if c then [Call_updateHandler] else [])
        else [])
   \<and> (advanced_on (RAGConfig p) \<or> k \<noteq> ''USE_ADVANCED_RETRIEVAL'' \<or> \<not> b \<longrightarrow>
        writes_followed (emitted p (perform p (Toggle k b))))
   \<and> writes_followed (emitted p (perform p (Choose k j)))
   \<and> (c \<longrightarrow> writes_followed (emitted p (perform p (Edit k xs c))))
   \<and> effects (mount t cfg w h r) =
       (if advanced_on (RAGConfig (props t cfg w h r))
        then select_defaults (RAGConfig (props t cfg w h r)) else [])
   \<and> filter exports (emitted p (perform p i)) = []
   \<and> world (perform p i) =
       (if Call_updateHandler \<in> set (emitted p (perform p i))
        then updateHandler p (world p) else world p)"
proof -
  have a: "(\<forall>k' x. ev \<noteq> Input_number k' x) \<longrightarrow> writes_followed (emitted p (listeners p ev))"
    using writes_followed_listeners by blast
  have b: "advanced_on (RAGConfig p) \<or> k \<noteq> ''USE_ADVANCED_RETRIEVAL'' \<or> \<not> b \<longrightarrow>
        writes_followed (emitted p (perform p (Toggle k b)))"
    by (auto simp add: emitted_Toggle)
  have c: "writes_followed (emitted p (perform p (Choose k j)))"
    by (simp add: emitted_Choose)
  have d: "c \<longrightarrow> writes_followed (emitted p (perform p (Edit k xs c)))"
    by (simp add: emitted_Edit writes_followed_assigns)
  have e: "emitted p (perform p (Choose k j)) =
       (if advanced_on (RAGConfig p) \<and> k \<in> set mode_keys \<and> j < 3
        then [Assign k (JStr ([''full_context'', ''chunked_vectorized'', ''hybrid''] ! j)),
              Call_updateHandler]
        else [])"
    by (simp add: emitted_Choose modes_def)
  from a b c d e show ?thesis
    using emitted_Toggle [of p k b] emitted_Edit [of p k xs c] effects_mount [of t cfg w h r]
      no_exports_perform [of p i] world_perform [of p i]
    by blast
qed

theorem change_writes_followed_by_updateHandler_witness:
  "emitted (mount (\<lambda>s. s) JNull (0::nat) (Some Suc)
              (Some (JObj [(''USE_ADVANCED_RETRIEVAL'', JBool True),
                           (''CHAT_UPLOAD_PROCESSING_MODE'', JStr ''hybrid''),
                           (''KNOWLEDGE_BASE_PROCESSING_MODE'', JStr ''hybrid'')])))
     (perform (mount (\<lambda>s. s) JNull (0::nat) (Some Suc)
              (Some (JObj [(''USE_ADVANCED_RETRIEVAL'', JBool True),
                           (''CHAT_UPLOAD_PROCESSING_MODE'', JStr ''hybrid''),
                           (''KNOWLEDGE_BASE_PROCESSING_MODE'', JStr ''hybrid'')])))
        (Toggle ''ENABLE_DOCUMENT_RERANKING'' True))
     = [Assign ''ENABLE_DOCUMENT_RERANKING'' (JBool True), Call_updateHandler]
   \<and> world (perform (mount (\<lambda>s. s) JNull (0::nat) (Some Suc)
              (Some (JObj [(''USE_ADVANCED_RETRIEVAL'', JBool True),
                           (''CHAT_UPLOAD_PROCESSING_MODE'', JStr ''hybrid''),
                           (''KNOWLEDGE_BASE_PROCESSING_MODE'', JStr ''hybrid'')])))
        (Toggle ''ENABLE_DOCUMENT_RERANKING'' True)) = 1
   \<and> writes_followed
       (emitted (mount (\<lambda>s. s) JNull (0::nat) (Some Suc)
              (Some (JObj [(''USE_ADVANCED_RETRIEVAL'', JBool True),
                           (''CHAT_UPLOAD_PROCESSING_MODE'', JStr ''hybrid''),
                           (''KNOWLEDGE_BASE_PROCESSING_MODE'', JStr ''hybrid'')])))
         (perform (mount (\<lambda>s. s) JNull (0::nat) (Some Suc)
              (Some (JObj [(''USE_ADVANCED_RETRIEVAL'', JBool True),
                           (''CHAT_UPLOAD_PROCESSING_MODE'', JStr ''hybrid''),
                           (''KNOWLEDGE_BASE_PROCESSING_MODE'', JStr ''hybrid'')])))
            (Edit ''FILE_MAX_SIZE'' [Some 1, None] True)))
   \<and> writes_followed
       (emitted (mount (\<lambda>s. s) JNull (0::nat) (Some Suc)
              (Some (JObj [(''USE_ADVANCED_RETRIEVAL'', JBool True),
                           (''CHAT_UPLOAD_PROCESSING_MODE'', JStr ''hybrid''),
                           (''KNOWLEDGE_BASE_PROCESSING_MODE'', JStr ''hybrid'')])))
         (perform (mount (\<lambda>s. s) JNull (0::nat) (Some Suc)
              (Some (JObj [(''USE_ADVANCED_RETRIEVAL'', JBool True),
                           (''CHAT_UPLOAD_PROCESSING_MODE'', JStr ''hybrid''),
                           (''KNOWLEDGE_BASE_PROCESSING_MODE'', JStr ''hybrid'')])))
            (Toggle ''USE_ADVANCED_RETRIEVAL'' False)))
   \<and> writes_followed
       (emitted (mount (\<lambda>s. s) JNull (0::nat) (Some Suc)
              (Some (JObj [(''USE_ADVANCED_RETRIEVAL'', JBool True),
                           (''CHAT_UPLOAD_PROCESSING_MODE'', JStr ''hybrid''),
                           (''KNOWLEDGE_BASE_PROCESSING_MODE'', JStr ''hybrid'')])))
         (listeners (mount (\<lambda>s. s) JNull (0::nat) (Some Suc)
              (Some (JObj [(''USE_ADVANCED_RETRIEVAL'', JBool True),
                           (''CHAT_UPLOAD_PROCESSING_MODE'', JStr ''hybrid''),
                           (''KNOWLEDGE_BASE_PROCESSING_MODE'', JStr ''hybrid'')])))
            (Change_select ''CHAT_UPLOAD_PROCESSING_MODE'' 0)))
   \<and> effects (mount (\<lambda>s. s) JNull (0::nat) None
              (Some (JObj [(''USE_ADVANCED_RETRIEVAL'', JBool True)])))
     = [Assign ''CHAT_UPLOAD_PROCESSING_MODE'' (JStr ''full_context''),
        Assign ''KNOWLEDGE_BASE_PROCESSING_MODE'' (JStr ''full_context'')]"
proof -
  let ?r = "Some (JObj [(''USE_ADVANCED_RETRIEVAL'', JBool True),
                        (''CHAT_UPLOAD_PROCESSING_MODE'', JStr ''hybrid''),
                        (''KNOWLEDGE_BASE_PROCESSING_MODE'', JStr ''hybrid'')])"
  let ?p = "mount (\<lambda>s. s) JNull (0::nat) (Some Suc) ?r"
  have m: "?p = props (\<lambda>s. s) JNull (0::nat) (Some Suc) ?r"
    by (rule mount_no_defaults) (simp add: select_defaults_def)
  have s: "truthy (RAGConfig ?p)" "is_object (RAGConfig ?p)" "advanced_on (RAGConfig ?p)"
    "world ?p = 0" "updateHandler ?p = Suc"
    unfolding m by (simp_all add: advanced_on_def)
  note t1 = change_writes_followed_by_updateHandler
       [where p = ?p and k = "''ENABLE_DOCUMENT_RERANKING''" and b = True
          and i = "Toggle ''ENABLE_DOCUMENT_RERANKING'' True"
          and ev = "Change_select ''CHAT_UPLOAD_PROCESSING_MODE'' 0"
          and t = "\<lambda>s. s" and cfg = JNull and w = "0::nat" and h = None
          and r = "Some (JObj [(''USE_ADVANCED_RETRIEVAL'', JBool True)])"
          and j = 0 and xs = "[]" and c = True]
  note t2 = change_writes_followed_by_updateHandler
       [where p = ?p and k = "''FILE_MAX_SIZE''" and xs = "[Some 1, None]" and c = True
          and b = True and i = Press_export and ev = Click_export
          and t = "\<lambda>s. s" and cfg = JNull and w = "0::nat" and h = None and r = None
          and j = 0]
  note t3 = change_writes_followed_by_updateHandler
       [where p = ?p and k = "''USE_ADVANCED_RETRIEVAL''" and b = False
          and xs = "[]" and c = True and i = Press_export and ev = Click_export
          and t = "\<lambda>s. s" and cfg = JNull and w = "0::nat" and h = None and r = None
          and j = 0]
  have e1: "emitted ?p (perform ?p (Toggle ''ENABLE_DOCUMENT_RERANKING'' True))
      = [Assign ''ENABLE_DOCUMENT_RERANKING'' (JBool True), Call_updateHandler]"
    using t1 s by (simp add: checkbox_keys_def)
  have e2: "world (perform ?p (Toggle ''ENABLE_DOCUMENT_RERANKING'' True)) = 1"
    using t1 s e1 by simp
  have e3: "writes_followed (emitted ?p (perform ?p (Edit ''FILE_MAX_SIZE'' [Some 1, None] True)))"
    using t2 by blast
  have e4: "writes_followed (emitted ?p (perform ?p (Toggle ''USE_ADVANCED_RETRIEVAL'' False)))"
    using t3 by blast
  have e5: "writes_followed
      (emitted ?p (listeners ?p (Change_select ''CHAT_UPLOAD_PROCESSING_MODE'' 0)))"
    using t1 by simp
  have e6: "effects (mount (\<lambda>s. s) JNull (0::nat) None
              (Some (JObj [(''USE_ADVANCED_RETRIEVAL'', JBool True)])))
     = [Assign ''CHAT_UPLOAD_PROCESSING_MODE'' (JStr ''full_context''),
        Assign ''KNOWLEDGE_BASE_PROCESSING_MODE'' (JStr ''full_context'')]"
    using t1 by (simp add: advanced_on_def select_defaults_def)
  from e1 e2 e3 e4 e5 e6 show ?thesis by simp
qed

subsection \<open>The processing-mode selects\<close>



end
